theory Spec2Isabelle
  imports Main "HOL-Library.Sublist"
begin

section \<open>Python strings\<close>

text \<open>
  A Python \<open>str\<close> is a \<^typ>\<open>string\<close>, one \<^typ>\<open>char\<close> per character: the
  model covers the texts whose characters are code points below 256.
  \<open>needle in hay\<close> on strings is \<^const>\<open>sublist\<close> (a contiguous run),
  \<open>s.startswith(p)\<close> is \<^const>\<open>prefix\<close>. On these code points \<open>lower\<close> folds
  the letters \<open>A\<close> to \<open>Z\<close> and the capital letters from \<open>0xC0\<close> to \<open>0xDE\<close>
  (the sign \<open>0xD7\<close> apart), and the whitespace that \<open>strip\<close> and \<open>split\<close>
  remove is \<open>0x09\<close> to \<open>0x0D\<close>, \<open>0x1C\<close> to \<open>0x20\<close>, \<open>0x85\<close> and \<open>0xA0\<close>.
\<close>

abbreviation NL :: char where
  "NL \<equiv> CHR 0x0A"

abbreviation QUOTE :: char where
  "QUOTE \<equiv> CHR 0x27"

definition upper_letters :: string where
  "upper_letters =
     ''ABCDEFGHIJKLMNOPQRSTUVWXYZ'' @
     [CHR 0xC0, CHR 0xC1, CHR 0xC2, CHR 0xC3, CHR 0xC4, CHR 0xC5, CHR 0xC6, CHR 0xC7,
      CHR 0xC8, CHR 0xC9, CHR 0xCA, CHR 0xCB, CHR 0xCC, CHR 0xCD, CHR 0xCE, CHR 0xCF,
      CHR 0xD0, CHR 0xD1, CHR 0xD2, CHR 0xD3, CHR 0xD4, CHR 0xD5, CHR 0xD6, CHR 0xD8,
      CHR 0xD9, CHR 0xDA, CHR 0xDB, CHR 0xDC, CHR 0xDD, CHR 0xDE]"

definition lower_letters :: string where
  "lower_letters =
     ''abcdefghijklmnopqrstuvwxyz'' @
     [CHR 0xE0, CHR 0xE1, CHR 0xE2, CHR 0xE3, CHR 0xE4, CHR 0xE5, CHR 0xE6, CHR 0xE7,
      CHR 0xE8, CHR 0xE9, CHR 0xEA, CHR 0xEB, CHR 0xEC, CHR 0xED, CHR 0xEE, CHR 0xEF,
      CHR 0xF0, CHR 0xF1, CHR 0xF2, CHR 0xF3, CHR 0xF4, CHR 0xF5, CHR 0xF6, CHR 0xF8,
      CHR 0xF9, CHR 0xFA, CHR 0xFB, CHR 0xFC, CHR 0xFD, CHR 0xFE]"

definition lower_char :: "char \<Rightarrow> char" where
  "lower_char c =
     (case map_of (zip upper_letters lower_letters) c of
        Some d \<Rightarrow> d
      | None \<Rightarrow> c)"

definition py_lower :: "string \<Rightarrow> string" where
  "py_lower s = map lower_char s"

definition is_space :: "char \<Rightarrow> bool" where
  "is_space c = (c \<in> set [CHR 0x09, CHR 0x0A, CHR 0x0B, CHR 0x0C, CHR 0x0D,
                            CHR 0x1C, CHR 0x1D, CHR 0x1E, CHR 0x1F, CHR 0x20,
                            CHR 0x85, CHR 0xA0])"

definition py_strip :: "string \<Rightarrow> string" where
  "py_strip s = rev (dropWhile is_space (rev (dropWhile is_space s)))"

text \<open>\<open>s[:n]\<close> and \<open>s[-n:]\<close> for a literal \<open>n > 0\<close>.\<close>

definition slice_to :: "nat \<Rightarrow> string \<Rightarrow> string" where
  "slice_to n s = take n s"

definition slice_last :: "nat \<Rightarrow> 'a list \<Rightarrow> 'a list" where
  "slice_last n s = drop (length s - n) s"

text \<open>\<open>s.split()\<close>: the maximal runs of non-whitespace characters.\<close>

fun split_ws_aux :: "string \<Rightarrow> string \<Rightarrow> string list" where
  "split_ws_aux cur [] = (if cur = [] then [] else [cur])"
| "split_ws_aux cur (c # cs) =
     (if is_space c
      then (if cur = [] then split_ws_aux [] cs else cur # split_ws_aux [] cs)
      else split_ws_aux (cur @ [c]) cs)"

definition py_split :: "string \<Rightarrow> string list" where
  "py_split s = split_ws_aux [] s"

text \<open>\<open>s.split(sep)\<close> for a one-character separator: never empty.\<close>

fun split_on_aux :: "char \<Rightarrow> string \<Rightarrow> string \<Rightarrow> string list" where
  "split_on_aux sep cur [] = [cur]"
| "split_on_aux sep cur (c # cs) =
     (if c = sep then cur # split_on_aux sep [] cs else split_on_aux sep (cur @ [c]) cs)"

definition py_split_on :: "char \<Rightarrow> string \<Rightarrow> string list" where
  "py_split_on sep s = split_on_aux sep [] s"

text \<open>\<open>sep.join(xs)\<close>.\<close>

fun py_join :: "string \<Rightarrow> string list \<Rightarrow> string" where
  "py_join sep [] = []"
| "py_join sep [x] = x"
| "py_join sep (x # y # ys) = x @ sep @ py_join sep (y # ys)"

text \<open>
  \<open>s.replace(old, new)\<close>: the occurrences of \<open>old\<close> are replaced from left to
  right, without overlap; an empty \<open>old\<close> matches between any two characters.
\<close>

function str_replace :: "string \<Rightarrow> string \<Rightarrow> string \<Rightarrow> string" where
  "str_replace old new [] = (if old = [] then new else [])"
| "str_replace old new (c # cs) =
     (if old = [] then new @ c # str_replace old new cs
      else if prefix old (c # cs) then new @ str_replace old new (drop (length old) (c # cs))
      else c # str_replace old new cs)"
  by pat_completeness auto
termination
  by (relation "measure (\<lambda>(old, new, s). length s)") auto

text \<open>
  \<open>s.find(sub, start)\<close> for \<open>start \<le> len(s)\<close>: the lowest index at or after
  \<open>start\<close> where \<open>sub\<close> begins, \<open>None\<close> for Python's \<open>-1\<close>.
\<close>

fun find_at :: "string \<Rightarrow> string \<Rightarrow> nat \<Rightarrow> nat option" where
  "find_at sub [] i = (if sub = [] then Some i else None)"
| "find_at sub (c # cs) i = (if prefix sub (c # cs) then Some i else find_at sub cs (Suc i))"

definition py_find :: "string \<Rightarrow> string \<Rightarrow> nat \<Rightarrow> nat option" where
  "py_find sub s start = find_at sub (drop start s) start"

text \<open>\<open>str(n)\<close> for an integer.\<close>

fun string_of_nat :: "nat \<Rightarrow> string" where
  "string_of_nat n =
     (if n < 10 then [''0123456789'' ! n]
      else string_of_nat (n div 10) @ [''0123456789'' ! (n mod 10)])"

declare string_of_nat.simps [simp del]

definition str_int :: "int \<Rightarrow> string" where
  "str_int i = (if i < 0 then CHR ''-'' # string_of_nat (nat (- i)) else string_of_nat (nat i))"

text \<open>
  A value of type \<open>Any\<close> (the logs or the error of an execution) is used through
  its truth value and through \<open>str\<close> only.
\<close>

datatype any_value = AnyValue (truthy: bool) (str_of: string)

section \<open>The data model\<close>

text \<open>An entry of \<open>session_history\<close>, as \<open>execute_code\<close> builds it.\<close>

record iteration_record =
  timestamp :: string
  code :: string
  logs :: any_value
  success :: bool
  results_count :: nat

text \<open>The dictionary returned by \<open>_check_analysis_completion\<close>.\<close>

record completion_decision =
  should_stop :: bool
  reason :: string

section \<open>RepetitionDetector\<close>

text \<open>
  \<open>_detect_repetitive_analysis\<close>. \<open>similar a b\<close> is the test of the inner loop:
  more than 10 common words. \<open>similar_counts\<close> is the list \<open>code_similarities\<close>:
  each of the recent entries is compared with the entries after it.
\<close>

definition common_words :: "iteration_record \<Rightarrow> iteration_record \<Rightarrow> string set" where
  "common_words a b = set (py_split (py_lower (code a))) \<inter> set (py_split (py_lower (code b)))"

definition similar :: "iteration_record \<Rightarrow> iteration_record \<Rightarrow> bool" where
  "similar a b = (card (common_words a b) > 10)"

fun similar_counts :: "iteration_record list \<Rightarrow> nat list" where
  "similar_counts [] = []"
| "similar_counts (a # rest) = length (filter (similar a) rest) # similar_counts rest"

text \<open>
  \<open>max\<close> of a list raises \<open>ValueError\<close> on the empty list; the list has three
  entries here (lemma \<open>similar_counts_recent\<close>), so that branch is dead.
\<close>

definition detect_repetitive_analysis :: "iteration_record list \<Rightarrow> bool" where
  "detect_repetitive_analysis session_history =
     (if length session_history < 4 then False
      else
        (case similar_counts (slice_last 3 session_history) of
           [] \<Rightarrow> False
         | s # ss \<Rightarrow> fold max ss s \<ge> 2))"

section \<open>TopicTracker\<close>

definition topic_mapping :: "(string \<times> string list) list" where
  "topic_mapping =
     [(''data_exploration'', [''shape'', ''structure'', ''overview'', ''basic'', ''exploration'']),
      (''correlations'', [''correlation'', ''relationship'', ''association'']),
      (''distributions'', [''distribution'', ''histogram'', ''spread'', ''density'']),
      (''visualization'', [''plot'', ''chart'', ''graph'', ''visualiz'']),
      (''patterns'', [''pattern'', ''trend'', ''outlier'', ''anomal'']),
      (''statistics'', [''statistical'', ''summary'', ''mean'', ''median'', ''std'']),
      (''target_analysis'', [''target'', ''prediction'', ''classification'']),
      (''feature_analysis'', [''feature'', ''variable'', ''column''])]"

definition track_analysis_topics :: "string \<Rightarrow> string set \<Rightarrow> string set" where
  "track_analysis_topics explanation topics_covered =
     (let explanation_lower = py_lower explanation
      in fold (\<lambda>(topic, keywords) ts.
                 if list_ex (\<lambda>keyword. sublist keyword explanation_lower) keywords
                 then insert topic ts else ts)
              topic_mapping topics_covered)"

section \<open>CompletionOracle\<close>

definition completion_signals :: "string list" where
  "completion_signals =
     [''analysis is complete'', ''comprehensive analysis'', ''analysis complete'',
      ''sufficient insights'', ''thorough analysis'', ''complete understanding'',
      ''analysis finished'', ''all aspects covered'', ''comprehensive coverage'']"

definition core_topics :: "string set" where
  "core_topics =
     {''data_exploration'', ''correlations'', ''distributions'', ''visualization'', ''patterns''}"

text \<open>
  \<open>_check_analysis_completion\<close>, with \<open>self.session_history\<close> as its first
  argument. The loop over the signals returns at the first one found.
\<close>

definition check_analysis_completion ::
    "iteration_record list \<Rightarrow> string \<Rightarrow> int \<Rightarrow> int \<Rightarrow> string set \<Rightarrow> completion_decision" where
  "check_analysis_completion session_history ai_response iteration min_iterations topics_covered =
     (let response_lower = py_lower ai_response
      in case find (\<lambda>signal. sublist signal response_lower) completion_signals of
           Some signal \<Rightarrow>
             \<lparr>should_stop = True,
              reason = ''AI indicated completion with signal: '' @ [QUOTE] @ signal @ [QUOTE]\<rparr>
         | None \<Rightarrow>
             if iteration < min_iterations
             then \<lparr>should_stop = False, reason = ''Still in minimum iteration phase''\<rparr>
             else
               let covered_core = core_topics \<inter> topics_covered
               in if card covered_core \<ge> 4 \<and> iteration \<ge> 5
                  then \<lparr>should_stop = True,
                        reason = ''Comprehensive coverage achieved: ''
                                 @ str_int (int (card covered_core)) @ '' core topics covered''\<rparr>
                  else if iteration > 8 \<and> detect_repetitive_analysis session_history
                  then \<lparr>should_stop = True,
                        reason = ''Analysis becoming repetitive - comprehensive insights achieved''\<rparr>
                  else \<lparr>should_stop = False, reason = ''Analysis should continue''\<rparr>)"

section \<open>ResponseParser\<close>

text \<open>
  \<open>_parse_ai_response\<close>. \<open>parse_line\<close> is the body of the loop of method 1 on
  the state \<open>(explanation, code, in_code_block)\<close>. No operation of the \<open>try\<close>
  block raises on a string, so the \<open>except\<close> branch is not modelled.
\<close>

fun parse_line :: "string \<times> string \<times> bool \<Rightarrow> string \<Rightarrow> string \<times> string \<times> bool" where
  "parse_line (explanation, code_acc, in_code_block) line =
     (if prefix ''EXPLANATION:'' line
      then (py_strip (str_replace ''EXPLANATION:'' [] line), code_acc, in_code_block)
      else if prefix ''CODE:'' line then (explanation, code_acc, in_code_block)
      else if prefix ''```python'' (py_strip line) then (explanation, code_acc, True)
      else if py_strip line = ''```'' \<and> in_code_block then (explanation, code_acc, False)
      else if in_code_block then (explanation, code_acc @ line @ [NL], in_code_block)
      else (explanation, code_acc, in_code_block))"

definition code_keywords :: "string list" where
  "code_keywords = [''import '', ''df.'', ''plt.'', ''print('', ''pandas'']"

definition parse_ai_response :: "string \<Rightarrow> string \<times> string" where
  "parse_ai_response response =
     (if sublist ''EXPLANATION:'' response
      then
        (case foldl parse_line ([], [], False) (py_split_on NL (py_strip response)) of
           (explanation, code_acc, in_code_block) \<Rightarrow> (explanation, py_strip code_acc))
      else if sublist ''```python'' response
      then
        (case py_find ''```python'' response 0 of
           None \<Rightarrow> ([], [])
         | Some code_start \<Rightarrow>
             let explanation =
                   (if code_start > 0
                    then py_strip (str_replace ''EXPLANATION:'' []
                                     (py_strip (take code_start response)))
                    else []);
                 code_start_content = code_start + 9
             in (case py_find ''```'' response code_start_content of
                   None \<Rightarrow> (explanation, [])
                 | Some code_end \<Rightarrow>
                     (explanation,
                      py_strip (take (code_end - code_start_content)
                                  (drop code_start_content response)))))
      else if list_ex (\<lambda>keyword. sublist keyword response) code_keywords
      then ([], py_strip response)
      else (py_strip response, []))"

section \<open>The external calls\<close>

text \<open>
  A call to the model service or to the sandbox either raises an exception \<open>e\<close>
  (\<open>Raised (str e)\<close>) or returns. An \<open>execution\<close> is what \<open>run_code\<close> returns:
  \<open>exec_error\<close> is \<open>None\<close> or an error object, \<open>exec_results\<close> is the number of
  results.
\<close>

datatype 'a outcome = Raised string | Returned 'a

record execution =
  exec_error :: "any_value option"
  exec_logs :: any_value
  exec_results :: nat

section \<open>SandboxHealthMonitor\<close>

text \<open>
  \<open>_check_sandbox_health\<close>; the argument is \<open>None\<close> when \<open>self.sandbox\<close> is
  unset, and the outcome of the no-op \<open>run_code\<close> otherwise.
\<close>

definition check_sandbox_health :: "execution outcome option \<Rightarrow> bool" where
  "check_sandbox_health probe_outcome =
     (case probe_outcome of
        None \<Rightarrow> False
      | Some (Returned test_execution) \<Rightarrow> exec_error test_execution = None
      | Some (Raised e) \<Rightarrow>
          if sublist ''sandbox was not found'' e \<or> sublist ''timeout'' (py_lower e)
          then False else True)"

section \<open>ErrorClassifier\<close>

definition handle_execution_error :: "any_value \<Rightarrow> bool" where
  "handle_execution_error error_logs =
     (let error_str = py_lower (str_of error_logs)
      in if sublist ''sandbox was not found'' error_str \<or> sublist ''timeout'' error_str then True
         else if sublist ''import'' error_str \<or> sublist ''module'' error_str then True
         else if sublist ''file not found'' error_str \<or> sublist ''no such file'' error_str then True
         else False)"

section \<open>Model call and code execution\<close>

text \<open>The part of \<open>chat_with_ai\<close> after the request: \<open>None\<close> when the request raised.\<close>

definition chat_with_ai :: "string outcome \<Rightarrow> string option" where
  "chat_with_ai reply =
     (case reply of
        Raised e \<Rightarrow> None
      | Returned content \<Rightarrow>
          let code = py_strip content
          in if sublist ''ANALYSIS_COMPLETE'' code then Some ''ANALYSIS_COMPLETE'' else Some code)"

text \<open>
  \<open>execute_code\<close> on the history: \<open>now\<close> is the clock reading, \<open>run\<close> the outcome
  of \<open>run_code\<close>, \<open>save\<close> the text of the exception that \<open>_save_results\<close> raises, if
  it raises. The result is \<open>(success, logs)\<close> and the history.
\<close>

definition execute_code ::
    "string \<Rightarrow> string \<Rightarrow> execution outcome \<Rightarrow> string option \<Rightarrow> iteration_record list
       \<Rightarrow> (bool \<times> any_value) \<times> iteration_record list" where
  "execute_code now code_text run save session_history =
     (case run of
        Raised e \<Rightarrow> ((False, AnyValue (e \<noteq> []) e), session_history)
      | Returned ex \<Rightarrow>
          (case (case exec_error ex of None \<Rightarrow> None | Some err \<Rightarrow> if truthy err then Some err else None) of
             Some err \<Rightarrow> ((False, err), session_history)
           | None \<Rightarrow>
               (case (if exec_results ex > 0 then save else None) of
                  Some e \<Rightarrow> ((False, AnyValue (e \<noteq> []) e), session_history)
                | None \<Rightarrow>
                    ((True, exec_logs ex),
                     session_history @
                       [\<lparr>timestamp = now, code = code_text, logs = exec_logs ex,
                         success = True, results_count = exec_results ex\<rparr>]))))"

definition update_context :: "string \<Rightarrow> string \<Rightarrow> string" where
  "update_context analysis_context new_info =
     (let ctx = analysis_context @ [NL] @ new_info
      in if length ctx > 2000 then slice_last 1500 ctx else ctx)"

section \<open>PromptSynthesizer\<close>

definition all_topics :: "string set" where
  "all_topics =
     {''data_exploration'', ''correlations'', ''distributions'', ''visualization'', ''patterns'',
      ''statistics'', ''target_analysis''}"

text \<open>
  \<open>_generate_intelligent_prompt\<close>. \<open>order\<close> is the order in which Python
  iterates over a set of strings, which \<open>join\<close> follows; \<open>analysis_context\<close> is
  the field of the analyzer. The two emoji of the template lie beyond code point
  255 and are written as the bytes of their UTF-8 encoding.
\<close>

definition generate_intelligent_prompt ::
    "(string set \<Rightarrow> string list) \<Rightarrow> string \<Rightarrow> int \<Rightarrow> any_value \<Rightarrow> string set \<Rightarrow> string" where
  "generate_intelligent_prompt order analysis_context iteration logs_value topics_covered =
     (let remaining_topics = all_topics - topics_covered
      in concat
        [[NL],
         ''INTELLIGENT ANALYSIS CONTINUATION - Step '', str_int (iteration + 1), [NL],
         [NL],
         ''PREVIOUS STEP RESULTS:'', [NL],
         (if truthy logs_value then slice_to 400 (str_of logs_value) else ''No output''), [NL],
         [NL],
         ''ANALYSIS CONTEXT:'', [NL],
         (if analysis_context \<noteq> [] then slice_last 800 analysis_context
          else ''Starting analysis''), [NL],
         [NL],
         ''COVERAGE STATUS:'', [NL],
         [CHR 0xE2, CHR 0x9C, CHR 0x85], '' Completed topics: '',
         (if topics_covered \<noteq> {} then py_join '', '' (order topics_covered) else ''None yet''),
         [NL],
         [CHR 0xF0, CHR 0x9F, CHR 0x93, CHR 0x8B], '' Remaining areas: '',
         (if remaining_topics \<noteq> {} then py_join '', '' (order remaining_topics)
          else ''All major areas covered''), [NL],
         [NL],
         ''INTELLIGENT NEXT STEP:'', [NL],
         ''Based on the coverage status, please choose the MOST VALUABLE next analysis step.'', [NL],
         ''Priority order:'', [NL],
         ''1. If data_exploration not covered: Basic data overview and structure'', [NL],
         ''2. If correlations not covered: Feature relationships and target correlations  '', [NL],
         ''3. If distributions not covered: Feature distributions and patterns'', [NL],
         ''4. If visualization not covered: Key visualizations for insights'', [NL],
         ''5. If patterns not covered: Advanced pattern detection and outliers'', [NL],
         [NL],
         ''IMPORTANT: '', [NL],
         ''- Choose ONE focused analysis that adds NEW insights'', [NL],
         ''- Avoid repeating previous analyses'', [NL],
         ''- If all major topics covered, provide final summary or conclude'', [NL],
         ''- Generate executable Python code for your chosen analysis'', [NL]])"

section \<open>The run summary\<close>

text \<open>What \<open>_print_completion_summary\<close> prints, field by field.\<close>

record completion_summary =
  total_steps :: int
  topics_count :: nat
  visualizations :: nat
  recoveries :: nat
  quality :: string
  closing :: string

definition print_completion_summary ::
    "iteration_record list \<Rightarrow> int \<Rightarrow> string set \<Rightarrow> nat \<Rightarrow> completion_summary" where
  "print_completion_summary session_history iteration topics_covered sandbox_resets =
     \<lparr>total_steps = iteration,
      topics_count = card topics_covered,
      visualizations = length (filter (\<lambda>h. results_count h > 0) session_history),
      recoveries = sandbox_resets,
      quality = (if card topics_covered \<ge> 4 then ''Comprehensive'' else ''Partial''),
      closing = (if card topics_covered \<ge> 4
                 then ''Comprehensive analysis achieved through intelligent iteration!''
                 else ''For deeper insights, try 'autorun [specific topic]' to continue'')\<rparr>"

section \<open>IterationController\<close>

text \<open>
  The local variables of \<open>execute_with_automation\<close> and the two fields of the
  analyzer that the loop changes. \<open>iteration\<close> is passed beside the state.
\<close>

record run_state =
  current_prompt :: string
  consecutive_failures :: nat
  analysis_topics_covered :: "string set"
  sandbox_reset_count :: nat
  session_history :: "iteration_record list"
  analysis_context :: string

text \<open>
  What the outside world does during one pass of the loop: the health probe, whether
  \<open>_reinitialize_sandbox\<close> succeeds, the reply of the model service, the outcome of
  \<open>run_code\<close>, the exception of \<open>_save_results\<close> if any, and the clock.
\<close>

record step_events =
  probe :: "execution outcome option"
  reinitialized :: bool
  model_reply :: "string outcome"
  run_code :: "execution outcome"
  save_results :: "string option"
  clock :: string

text \<open>The four \<open>break\<close> statements of the loop, and the exit at the ceiling.\<close>

datatype stop_cause =
    SandboxLost
  | ModelFailures
  | Completed string
  | ExecutionFailures
  | CeilingReached

datatype step_result = Continue run_state | Break stop_cause run_state

text \<open>
  One pass of the \<open>while\<close> body, \<open>iteration\<close> already incremented, in
  three parts, last part first. \<open>run_step_code\<close> is the body from the call of
  \<open>execute_code\<close> on; the pause before the next step is left out.
\<close>

definition run_step_code ::
    "(string set \<Rightarrow> string list) \<Rightarrow> int \<Rightarrow> step_events \<Rightarrow> string \<Rightarrow> run_state \<Rightarrow> step_result" where
  "run_step_code order iteration ev code_text s3 =
     (let ((succeeded, logs_value), history) =
            execute_code (clock ev) code_text (run_code ev) (save_results ev) (session_history s3);
          s4 = s3\<lparr>session_history := history\<rparr>;
          unhandled = (\<not> succeeded \<and> \<not> handle_execution_error logs_value);
          s5 = (if unhandled then s4\<lparr>consecutive_failures := consecutive_failures s4 + 1\<rparr>
                else s4)
      in if unhandled \<and> consecutive_failures s5 \<ge> 2 then Break ExecutionFailures s5
         else
           let result_summary =
                 (if truthy logs_value then take 500 (str_of logs_value) else ''No output'');
               s6 = s5\<lparr>analysis_context :=
                      update_context (analysis_context s5)
                        (''Step '' @ str_int iteration @ '': '' @ result_summary)\<rparr>
           in Continue (s6\<lparr>current_prompt :=
                  generate_intelligent_prompt order (analysis_context s6) iteration logs_value
                    (analysis_topics_covered s6)\<rparr>))"

text \<open>
  \<open>handle_response\<close> is the body once a response has arrived: the failure counter
  is reset, the completion check runs, the response is parsed.
\<close>

definition handle_response ::
    "(string set \<Rightarrow> string list) \<Rightarrow> int \<Rightarrow> int \<Rightarrow> step_events \<Rightarrow> string \<Rightarrow> run_state
       \<Rightarrow> step_result" where
  "handle_response order min_iterations iteration ev ai_response s1 =
     (let s2 = s1\<lparr>consecutive_failures := 0\<rparr>;
          completion_check =
            check_analysis_completion (session_history s2) ai_response iteration min_iterations
              (analysis_topics_covered s2)
      in if should_stop completion_check then Break (Completed (reason completion_check)) s2
         else
           let (explanation, code_text) = parse_ai_response ai_response;
               s3 = (if explanation \<noteq> []
                     then s2\<lparr>analysis_topics_covered :=
                               track_analysis_topics explanation (analysis_topics_covered s2)\<rparr>
                     else s2)
           in if code_text = []
              then Continue (s3\<lparr>current_prompt :=
                     ''Please provide executable Python code for the next analysis step.''\<rparr>)
              else run_step_code order iteration ev code_text s3)"

text \<open>The branch \<open>if not ai_response\<close>.\<close>

definition no_response :: "run_state \<Rightarrow> step_result" where
  "no_response s1 =
     (let s2 = s1\<lparr>consecutive_failures := consecutive_failures s1 + 1\<rparr>
      in if consecutive_failures s2 \<ge> 3 then Break ModelFailures s2 else Continue s2)"

definition step ::
    "(string set \<Rightarrow> string list) \<Rightarrow> int \<Rightarrow> int \<Rightarrow> step_events \<Rightarrow> run_state \<Rightarrow> step_result" where
  "step order min_iterations iteration ev s =
     (let healthy = check_sandbox_health (probe ev)
      in if \<not> healthy \<and> \<not> reinitialized ev then Break SandboxLost s
         else
           let s1 = (if \<not> healthy then s\<lparr>sandbox_reset_count := sandbox_reset_count s + 1\<rparr>
                     else s)
           in (case chat_with_ai (model_reply ev) of
                 None \<Rightarrow> no_response s1
               | Some ai_response \<Rightarrow>
                   if ai_response = [] then no_response s1
                   else handle_response order min_iterations iteration ev ai_response s1))"

text \<open>
  The \<open>while\<close> loop: \<open>world\<close> gives the events of each pass by its step number.
  The result is the final \<open>iteration\<close>, why the loop ended, and the state.
\<close>

function execute_loop ::
    "(string set \<Rightarrow> string list) \<Rightarrow> (int \<Rightarrow> step_events) \<Rightarrow> int \<Rightarrow> int \<Rightarrow> int \<Rightarrow> run_state
       \<Rightarrow> int \<times> stop_cause \<times> run_state" where
  "execute_loop order world max_iterations min_iterations iteration s =
     (if iteration < max_iterations
      then
        (case step order min_iterations (iteration + 1) (world (iteration + 1)) s of
           Continue s' \<Rightarrow> execute_loop order world max_iterations min_iterations (iteration + 1) s'
         | Break cause s' \<Rightarrow> (iteration + 1, cause, s'))
      else (iteration, CeilingReached, s))"
  by pat_completeness auto
termination
  by (relation "measure (\<lambda>(order, world, max_iterations, min_iterations, iteration, s).
                           nat (max_iterations - iteration))") auto

declare execute_loop.simps [simp del]

text \<open>
  \<open>execute_with_automation\<close>, started on the analyzer's history and context; it
  returns \<open>iteration\<close>, and the model keeps the cause, the state and the summary.
\<close>

definition execute_with_automation ::
    "(string set \<Rightarrow> string list) \<Rightarrow> (int \<Rightarrow> step_events) \<Rightarrow> iteration_record list \<Rightarrow> string
       \<Rightarrow> string \<Rightarrow> int \<Rightarrow> int \<Rightarrow> (int \<times> stop_cause \<times> run_state) \<times> completion_summary" where
  "execute_with_automation order world history context initial_prompt max_iterations min_iterations =
     (let (iteration, cause, s) =
            execute_loop order world max_iterations min_iterations 0
              \<lparr>current_prompt = initial_prompt, consecutive_failures = 0,
               analysis_topics_covered = {}, sandbox_reset_count = 0,
               session_history = history, analysis_context = context\<rparr>
      in ((iteration, cause, s),
          print_completion_summary (session_history s) iteration (analysis_topics_covered s)
            (sandbox_reset_count s)))"

section \<open>Concrete inputs\<close>

text \<open>
  A history entry for a code snippet, as \<open>execute_code\<close> appends it after a
  successful execution without results.
\<close>

definition history_entry :: "string \<Rightarrow> iteration_record" where
  "history_entry c =
     \<lparr>timestamp = ''2024-01-01T00:00:00'', code = c, logs = AnyValue True [],
      success = True, results_count = 0\<rparr>"

text \<open>
  A pass of the loop in which the sandbox is healthy, the model service replies
  \<open>content\<close>, and the code runs without error and without results.
\<close>

definition quiet_events :: "string \<Rightarrow> step_events" where
  "quiet_events content =
     \<lparr>probe = Some (Returned \<lparr>exec_error = None, exec_logs = AnyValue True ''health_check'',
                               exec_results = 0\<rparr>),
      reinitialized = True,
      model_reply = Returned content,
      run_code = Returned \<lparr>exec_error = None, exec_logs = AnyValue True [], exec_results = 0\<rparr>,
      save_results = None,
      clock = ''2024-01-01T00:00:00''\<rparr>"

definition fresh_state :: run_state where
  "fresh_state =
     \<lparr>current_prompt = ''summary'', consecutive_failures = 0, analysis_topics_covered = {},
      sandbox_reset_count = 0, session_history = [], analysis_context = []\<rparr>"

text \<open>
  A pass of the loop in which the sandbox is healthy, the model service replies in
  the labeled format, and the code fails with an error that
  \<open>_handle_execution_error\<close> does not recognise.
\<close>

definition failing_response :: string where
  "failing_response =
     ''EXPLANATION: Divide'' @ [NL] @ ''```python'' @ [NL] @ ''print(1/0)'' @ [NL] @ ''```''"

definition failing_events :: step_events where
  "failing_events =
     \<lparr>probe = Some (Returned \<lparr>exec_error = None, exec_logs = AnyValue True ''health_check'',
                               exec_results = 0\<rparr>),
      reinitialized = True,
      model_reply = Returned failing_response,
      run_code =
        Returned \<lparr>exec_error = Some (AnyValue True ''ZeroDivisionError: division by zero''),
                  exec_logs = AnyValue True [], exec_results = 0\<rparr>,
      save_results = None,
      clock = ''2024-01-01T00:00:00''\<rparr>"

text \<open>
  An iteration order for sets of topics: the order of the topic vocabulary. And an
  output of 401 characters, whose last character occurs nowhere else.
\<close>

definition vocabulary_order :: "string set \<Rightarrow> string list" where
  "vocabulary_order T = filter (\<lambda>t. t \<in> T) (map fst topic_mapping)"

definition long_output :: string where
  "long_output = replicate 400 (CHR ''a'') @ ''#''"

text \<open>
  The labeled format that the system prompt of \<open>chat_with_ai\<close> asks for: the
  explanation after its marker, a blank line, the \<open>CODE:\<close> header and one fenced
  block tagged \<open>python\<close>. A line of code is plain when the loop of method 1 takes
  it as code: it starts with neither marker and is no fence. A line outside the
  fenced block is one that neither starts with the explanation marker nor opens a
  block.
\<close>

definition labeled_response :: "string \<Rightarrow> string \<Rightarrow> string" where
  "labeled_response explanation code_text =
     ''EXPLANATION:'' @ explanation @ [NL] @ [NL] @ ''CODE:'' @ [NL] @ ''```python'' @ [NL]
       @ code_text @ [NL] @ ''```''"

definition plain_code_line :: "string \<Rightarrow> bool" where
  "plain_code_line line =
     (\<not> prefix ''EXPLANATION:'' line \<and> \<not> prefix ''CODE:'' line
      \<and> \<not> prefix ''```python'' (py_strip line) \<and> py_strip line \<noteq> ''```'')"

definition outside_line :: "string \<Rightarrow> bool" where
  "outside_line line =
     (\<not> prefix ''EXPLANATION:'' line \<and> \<not> prefix ''```python'' (py_strip line))"

text \<open>Snippets, explanations and a response in that format.\<close>

definition sample_code :: string where
  "sample_code = ''import pandas as pd'' @ [NL] @ ''df = pd.read_csv('data.csv')''"

definition two_line_explanation :: string where
  "two_line_explanation = '' Load the data.'' @ [NL] @ ''Then describe it.''"

definition annotated_code :: string where
  "annotated_code = ''CODE: int = 1'' @ [NL] @ ''print(CODE)''"

definition chatty_response :: string where
  "chatty_response =
     ''Sure.'' @ [NL] @ ''EXPLANATION: Count rows'' @ [NL] @ [NL] @ ''```python  '' @ [NL]
       @ ''print(len(df))'' @ [NL] @ '' ```'' @ [NL] @ ''Done.'' @ [NL]"

section \<open>Evaluation on concrete strings\<close>

lemmas eval_lower = py_lower_def lower_char_def upper_letters_def lower_letters_def

lemmas eval_str = eval_lower sublist_code completion_signals_def

lemma py_lower_fixed:
  "py_lower ''sandbox was not found'' = ''sandbox was not found''"
  "py_lower ''timeout'' = ''timeout''"
  by (simp_all add: eval_lower)

lemma sublist_py_lower: "sublist x e \<Longrightarrow> sublist (py_lower x) (py_lower e)"
  unfolding py_lower_def by (rule map_mono_sublist)

section \<open>Properties of the CompletionOracle\<close>

lemma signal_found:
  "find (\<lambda>signal. sublist signal (py_lower resp)) completion_signals = Some sig \<Longrightarrow>
   check_analysis_completion h resp iteration min_iterations topics
     = \<lparr>should_stop = True,
        reason = ''AI indicated completion with signal: '' @ [QUOTE] @ sig @ [QUOTE]\<rparr>"
  by (simp add: check_analysis_completion_def)

lemma no_signal_found:
  "find (\<lambda>signal. sublist signal (py_lower resp)) completion_signals = None \<Longrightarrow>
   check_analysis_completion h resp iteration min_iterations topics
     = (if iteration < min_iterations
        then \<lparr>should_stop = False, reason = ''Still in minimum iteration phase''\<rparr>
        else if card (core_topics \<inter> topics) \<ge> 4 \<and> iteration \<ge> 5
        then \<lparr>should_stop = True,
              reason = ''Comprehensive coverage achieved: ''
                       @ str_int (int (card (core_topics \<inter> topics))) @ '' core topics covered''\<rparr>
        else if iteration > 8 \<and> detect_repetitive_analysis h
        then \<lparr>should_stop = True,
              reason = ''Analysis becoming repetitive - comprehensive insights achieved''\<rparr>
        else \<lparr>should_stop = False, reason = ''Analysis should continue''\<rparr>)"
  by (simp add: check_analysis_completion_def Let_def)

text \<open>
  C2. Below \<open>min_iterations\<close> the oracle stops exactly when the lower-cased model
  text contains one of the completion phrases, whatever the topics and the history;
  and the text "The analysis is complete and comprehensive" at iteration 2 with
  \<open>min_iterations = 3\<close> stops, the phrase check coming first.
\<close>

theorem oracle_below_minimum:
  "(iteration < min_iterations \<longrightarrow>
      should_stop (check_analysis_completion h resp iteration min_iterations topics)
        = (\<exists>signal \<in> set completion_signals. sublist signal (py_lower resp)))
   \<and> should_stop
        (check_analysis_completion h ''The analysis is complete and comprehensive'' 2 3 topics)"
proof
  show "iteration < min_iterations \<longrightarrow>
      should_stop (check_analysis_completion h resp iteration min_iterations topics)
        = (\<exists>signal \<in> set completion_signals. sublist signal (py_lower resp))"
  proof (cases "find (\<lambda>signal. sublist signal (py_lower resp)) completion_signals")
    case None
    moreover from None
    have "\<not> (\<exists>signal \<in> set completion_signals. sublist signal (py_lower resp))"
      by (simp add: find_None_iff)
    ultimately show ?thesis
      by (simp add: no_signal_found)
  next
    case (Some sig)
    moreover from Some
    have "\<exists>signal \<in> set completion_signals. sublist signal (py_lower resp)"
      by (auto simp: find_Some_iff)
    ultimately show ?thesis
      by (simp add: signal_found)
  qed
  show "should_stop
          (check_analysis_completion h ''The analysis is complete and comprehensive'' 2 3 topics)"
    by (simp add: check_analysis_completion_def eval_str)
qed

theorem oracle_below_minimum_witness:
  "should_stop (check_analysis_completion [] ''Let us look at the data'' 1 3 {}) = False"
  using oracle_below_minimum [of 1 3 "[]" "''Let us look at the data''" "{}"]
  by (simp add: eval_str)

text \<open>
  C3. With no completion phrase in the model text, at an iteration that is at least
  \<open>min_iterations\<close> and at least 5, four or more covered core topics make the oracle
  stop, and the reason gives their number.
\<close>

theorem oracle_core_coverage:
  assumes "\<not> (\<exists>signal \<in> set completion_signals. sublist signal (py_lower resp))"
    and "min_iterations \<le> iteration" and "5 \<le> iteration"
    and "4 \<le> card (core_topics \<inter> topics)"
  shows "check_analysis_completion h resp iteration min_iterations topics
         = \<lparr>should_stop = True,
            reason = ''Comprehensive coverage achieved: ''
                     @ str_int (int (card (core_topics \<inter> topics))) @ '' core topics covered''\<rparr>"
proof -
  have "find (\<lambda>signal. sublist signal (py_lower resp)) completion_signals = None"
    using assms(1) by (simp add: find_None_iff)
  then show ?thesis
    using assms(2-4) by (simp add: no_signal_found)
qed

lemma card_core4:
  "card (core_topics \<inter> {''data_exploration'', ''correlations'', ''distributions'', ''patterns''}) = 4"
  by (simp add: core_topics_def)

theorem oracle_core_coverage_witness:
  "check_analysis_completion [] ''Next: outliers'' 5 3
      {''data_exploration'', ''correlations'', ''distributions'', ''patterns''}
   = \<lparr>should_stop = True, reason = ''Comprehensive coverage achieved: 4 core topics covered''\<rparr>"
  using oracle_core_coverage [of "''Next: outliers''" 3 5
      "{''data_exploration'', ''correlations'', ''distributions'', ''patterns''}" "[]"]
  by (simp add: eval_str card_core4 str_int_def string_of_nat.simps)

section \<open>Properties of the run summary\<close>

text \<open>
  C7, as the claim states it, fails: four covered topics of which one is a core
  topic give the verdict "Comprehensive".
\<close>

theorem summary_quality_counterexample:
  "\<not> (quality (print_completion_summary [] 6
           {''statistics'', ''target_analysis'', ''feature_analysis'', ''data_exploration''} 0)
        = ''Comprehensive''
      \<longleftrightarrow> 4 \<le> card (core_topics \<inter>
           {''statistics'', ''target_analysis'', ''feature_analysis'', ''data_exploration''}))"
  by (simp add: print_completion_summary_def core_topics_def)

text \<open>
  C7, amended. The verdict is "Comprehensive" if and only if the final topic set has
  at least 4 topics, core or not, and "Partial" otherwise; so 4 covered core topics
  are enough for "Comprehensive", and not needed.
\<close>

theorem summary_quality_by_topic_count:
  assumes "finite topics"
  shows "(quality (print_completion_summary h iteration topics resets) = ''Comprehensive''
            \<longleftrightarrow> 4 \<le> card topics)
       \<and> (quality (print_completion_summary h iteration topics resets) = ''Partial''
            \<longleftrightarrow> card topics < 4)
       \<and> (4 \<le> card (core_topics \<inter> topics)
            \<longrightarrow> quality (print_completion_summary h iteration topics resets) = ''Comprehensive'')"
proof -
  have "card (core_topics \<inter> topics) \<le> card topics"
    using assms by (simp add: card_mono)
  then show ?thesis
    by (auto simp: print_completion_summary_def)
qed

theorem summary_quality_by_topic_count_witness:
  "quality (print_completion_summary [] 6
       {''statistics'', ''target_analysis'', ''feature_analysis'', ''data_exploration''} 0)
     = ''Comprehensive''
   \<and> quality (print_completion_summary [] 6 {''correlations'', ''patterns''} 0) = ''Partial''"
  using summary_quality_by_topic_count
          [of "{''statistics'', ''target_analysis'', ''feature_analysis'', ''data_exploration''}"
              "[]" 6 0]
        summary_quality_by_topic_count [of "{''correlations'', ''patterns''}" "[]" 6 0]
  by simp

section \<open>Properties of the SandboxHealthMonitor\<close>

text \<open>
  C9, as the claim states it, fails: an exception saying "session not found" is
  taken as healthy, and so is "Sandbox Was Not Found" in capitals.
\<close>

theorem sandbox_health_counterexample:
  "check_sandbox_health (Some (Raised ''session not found''))
   \<and> check_sandbox_health (Some (Raised ''Sandbox Was Not Found''))"
  by (simp add: check_sandbox_health_def eval_str)

text \<open>
  C9, amended. The probe is false without a sandbox, false exactly when the no-op
  execution returns with an error, false when the exception text contains
  "sandbox was not found" as written or "timeout" in any capitalization, and true
  when the exception text contains neither phrase in any capitalization.
\<close>

theorem sandbox_health_probe:
  "check_sandbox_health None = False
   \<and> check_sandbox_health (Some (Returned ex)) = (exec_error ex = None)
   \<and> (sublist ''sandbox was not found'' e \<or> sublist ''timeout'' (py_lower e)
        \<longrightarrow> check_sandbox_health (Some (Raised e)) = False)
   \<and> (\<not> sublist ''sandbox was not found'' (py_lower e) \<and> \<not> sublist ''timeout'' (py_lower e)
        \<longrightarrow> check_sandbox_health (Some (Raised e)) = True)"
proof -
  have "sublist ''sandbox was not found'' e \<Longrightarrow> sublist ''sandbox was not found'' (py_lower e)"
    using sublist_py_lower [of "''sandbox was not found''" e] by (simp add: py_lower_fixed)
  then show ?thesis
    by (auto simp: check_sandbox_health_def)
qed

theorem sandbox_health_probe_witness:
  "check_sandbox_health (Some (Raised ''The sandbox was not found'')) = False
   \<and> check_sandbox_health (Some (Raised ''Request TimeOut'')) = False
   \<and> check_sandbox_health (Some (Raised ''connection reset'')) = True"
  using sandbox_health_probe
          [of "\<lparr>exec_error = None, exec_logs = AnyValue True [], exec_results = 0\<rparr>"
              "''The sandbox was not found''"]
        sandbox_health_probe
          [of "\<lparr>exec_error = None, exec_logs = AnyValue True [], exec_results = 0\<rparr>"
              "''Request TimeOut''"]
        sandbox_health_probe
          [of "\<lparr>exec_error = None, exec_logs = AnyValue True [], exec_results = 0\<rparr>"
              "''connection reset''"]
  by (simp add: eval_str)

section \<open>Properties of the RepetitionDetector\<close>

lemma similar_counts_recent:
  "4 \<le> length h \<Longrightarrow> length (similar_counts (slice_last 3 h)) = 3"
proof -
  have "length (similar_counts xs) = length xs" for xs
    by (induction xs) simp_all
  then show "4 \<le> length h \<Longrightarrow> length (similar_counts (slice_last 3 h)) = 3"
    by (simp add: slice_last_def)
qed

lemma split_words1:
  "py_split (py_lower ''df.corr() a b c d e f g h i j'')
   = [''df.corr()'', ''a'', ''b'', ''c'', ''d'', ''e'', ''f'', ''g'', ''h'', ''i'', ''j'']"
  by (simp add: py_split_def eval_lower is_space_def)

lemma split_words2:
  "py_split (py_lower ''df.corr() a b c d e f g h i j plot'')
   = [''df.corr()'', ''a'', ''b'', ''c'', ''d'', ''e'', ''f'', ''g'', ''h'', ''i'', ''j'', ''plot'']"
  by (simp add: py_split_def eval_lower is_space_def)

lemma split_words3: "py_split (py_lower ''df.describe()'') = [''df.describe()'']"
  by (simp add: py_split_def eval_lower is_space_def)

lemma split_words4: "py_split (py_lower ''df.corr() plot'') = [''df.corr()'', ''plot'']"
  by (simp add: py_split_def eval_lower is_space_def)

lemma split_words5: "py_split (py_lower ''df.corr()'') = [''df.corr()'']"
  by (simp add: py_split_def eval_lower is_space_def)

lemma similar_step1_step2:
  "similar (history_entry ''df.corr() a b c d e f g h i j'')
           (history_entry ''df.corr() a b c d e f g h i j plot'')"
  by (simp add: similar_def common_words_def history_entry_def split_words1 split_words2)

lemma dissimilar_step1_step3:
  "\<not> similar (history_entry ''df.corr() a b c d e f g h i j'') (history_entry ''df.describe()'')"
  by (simp add: similar_def common_words_def history_entry_def split_words1 split_words3)

lemma dissimilar_step2_step3:
  "\<not> similar (history_entry ''df.corr() a b c d e f g h i j plot'')
             (history_entry ''df.describe()'')"
  by (simp add: similar_def common_words_def history_entry_def split_words2 split_words3)

lemma dissimilar_literal:
  "\<not> similar (history_entry ''df.corr() plot'') (history_entry ''df.describe()'')"
  by (simp add: similar_def common_words_def history_entry_def split_words4 split_words3)

lemma no_repetition:
  "\<not> similar s2 s3 \<Longrightarrow>
   detect_repetitive_analysis [s1, s2, s3] = False
   \<and> detect_repetitive_analysis [s1, s2, s3, s4] = False"
  by (simp add: detect_repetitive_analysis_def slice_last_def)

text \<open>
  C6, as the claim states it, fails. With step 1 and step 2 sharing 11 words and
  step 3 sharing none with either, the detector is false on the three records and
  stays false when a fourth record is appended, even one that repeats step 1; and it
  is false on the three literal snippets of the claim with a fourth appended.
\<close>

theorem repetition_scenario_counterexample:
  "similar (history_entry ''df.corr() a b c d e f g h i j'')
           (history_entry ''df.corr() a b c d e f g h i j plot'')
   \<and> \<not> similar (history_entry ''df.corr() a b c d e f g h i j'') (history_entry ''df.describe()'')
   \<and> \<not> similar (history_entry ''df.corr() a b c d e f g h i j plot'')
                (history_entry ''df.describe()'')
   \<and> \<not> detect_repetitive_analysis
          [history_entry ''df.corr() a b c d e f g h i j'',
           history_entry ''df.corr() a b c d e f g h i j plot'',
           history_entry ''df.describe()'']
   \<and> \<not> detect_repetitive_analysis
          [history_entry ''df.corr() a b c d e f g h i j'',
           history_entry ''df.corr() a b c d e f g h i j plot'',
           history_entry ''df.describe()'',
           history_entry ''df.corr() a b c d e f g h i j'']
   \<and> \<not> detect_repetitive_analysis
          [history_entry ''df.corr()'', history_entry ''df.corr() plot'',
           history_entry ''df.describe()'', history_entry ''df.corr()'']"
  using no_repetition [OF dissimilar_step2_step3] no_repetition [OF dissimilar_literal]
  by (simp add: similar_step1_step2 dissimilar_step1_step3 dissimilar_step2_step3)

text \<open>
  C6, amended. For a history whose first three records are step 1, step 2 and
  step 3, with step 2 and step 3 sharing at most 10 words, the detector returns
  false: on the three records alone, and with any fourth record appended.
\<close>

theorem repetition_not_detected:
  assumes "\<not> similar s2 s3"
  shows "detect_repetitive_analysis [s1, s2, s3] = False
       \<and> detect_repetitive_analysis [s1, s2, s3, s4] = False"
  using assms by (simp add: detect_repetitive_analysis_def slice_last_def)

theorem repetition_not_detected_witness:
  "detect_repetitive_analysis
     [history_entry ''df.corr() a b c d e f g h i j'',
      history_entry ''df.corr() a b c d e f g h i j plot'',
      history_entry ''df.describe()'',
      history_entry ''df.head()''] = False"
  using repetition_not_detected [OF dissimilar_step2_step3]
  by simp

section \<open>Properties of code execution\<close>

text \<open>
  C4 fails on the code. An execution that reports an error, or a \<open>run_code\<close> that
  raises, returns \<open>success = False\<close> and leaves the history as it was: no record
  is appended for the step. Only the successful execution appends its record.
\<close>

theorem failed_execution_not_recorded:
  "execute_code now c
      (Returned \<lparr>exec_error = Some (AnyValue True msg), exec_logs = l, exec_results = n\<rparr>)
      sv hist
     = ((False, AnyValue True msg), hist)
   \<and> execute_code now c (Raised e) sv hist = ((False, AnyValue (e \<noteq> []) e), hist)
   \<and> execute_code now c
      (Returned \<lparr>exec_error = None, exec_logs = l, exec_results = 0\<rparr>) sv hist
     = ((True, l), hist @ [\<lparr>timestamp = now, code = c, logs = l, success = True, results_count = 0\<rparr>])"
  by (simp add: execute_code_def)

section \<open>The sentinel of the model\<close>

lemma sentinel_no_signal:
  "find (\<lambda>signal. sublist signal (py_lower ''ANALYSIS_COMPLETE'')) completion_signals = None"
  by (simp add: eval_str)

lemma parse_sentinel: "parse_ai_response ''ANALYSIS_COMPLETE'' = (''ANALYSIS_COMPLETE'', [])"
  by (simp add: parse_ai_response_def code_keywords_def sublist_code py_strip_def is_space_def)

lemma track_sentinel: "track_analysis_topics ''ANALYSIS_COMPLETE'' T = T"
  by (simp add: track_analysis_topics_def topic_mapping_def eval_str)

lemma sentinel_check:
  "iteration < 5 \<Longrightarrow>
   check_analysis_completion h ''ANALYSIS_COMPLETE'' iteration min_iterations topics
     = \<lparr>should_stop = False,
        reason = (if iteration < min_iterations then ''Still in minimum iteration phase''
                  else ''Analysis should continue'')\<rparr>"
  by (simp add: no_signal_found [OF sentinel_no_signal])

lemma sentinel_response:
  assumes "iteration < 5"
  shows "handle_response order min_iterations iteration ev ''ANALYSIS_COMPLETE'' s1
     = Continue (s1\<lparr>consecutive_failures := 0,
          current_prompt := ''Please provide executable Python code for the next analysis step.''\<rparr>)"
  using assms
  by (simp add: handle_response_def sentinel_check parse_sentinel track_sentinel Let_def)

text \<open>
  C10. A model reply that contains \<open>ANALYSIS_COMPLETE\<close> is collapsed to that
  literal; no completion phrase occurs in its lower-cased form; before iteration 5
  the completion check then says continue; and the pass of the loop ends in
  \<open>continue\<close> with the request for executable code, nothing executed.
\<close>

theorem sentinel_does_not_stop:
  assumes "sublist ''ANALYSIS_COMPLETE'' (py_strip content)" and "iteration < 5"
  shows "chat_with_ai (Returned content) = Some ''ANALYSIS_COMPLETE''
       \<and> \<not> list_ex (\<lambda>signal. sublist signal (py_lower ''ANALYSIS_COMPLETE'')) completion_signals
       \<and> should_stop
            (check_analysis_completion h ''ANALYSIS_COMPLETE'' iteration min_iterations topics) = False
       \<and> (model_reply ev = Returned content
             \<and> (check_sandbox_health (probe ev) \<or> reinitialized ev)
           \<longrightarrow> (\<exists>s'. step order min_iterations iteration ev s = Continue s'
                     \<and> current_prompt s'
                         = ''Please provide executable Python code for the next analysis step.''
                     \<and> session_history s' = session_history s))"
proof -
  have a: "chat_with_ai (Returned content) = Some ''ANALYSIS_COMPLETE''"
    using assms(1) by (simp add: chat_with_ai_def)
  have b: "\<not> list_ex (\<lambda>signal. sublist signal (py_lower ''ANALYSIS_COMPLETE'')) completion_signals"
    by (simp add: eval_str)
  have c: "should_stop
            (check_analysis_completion h ''ANALYSIS_COMPLETE'' iteration min_iterations topics) = False"
    using assms(2) by (simp add: sentinel_check)
  have d: "\<exists>s'. step order min_iterations iteration ev s = Continue s'
                     \<and> current_prompt s'
                         = ''Please provide executable Python code for the next analysis step.''
                     \<and> session_history s' = session_history s"
    if "model_reply ev = Returned content" "check_sandbox_health (probe ev) \<or> reinitialized ev"
    using that a assms(2) by (auto simp: step_def sentinel_response)
  from a b c d show ?thesis by blast
qed

theorem sentinel_does_not_stop_witness:
  "chat_with_ai (Returned ''All done. ANALYSIS_COMPLETE'') = Some ''ANALYSIS_COMPLETE''
   \<and> should_stop (check_analysis_completion [] ''ANALYSIS_COMPLETE'' 4 3 {}) = False
   \<and> (\<exists>s'. step (\<lambda>T. []) 3 4 (quiet_events ''All done. ANALYSIS_COMPLETE'') fresh_state = Continue s')"
proof -
  have 1: "sublist ''ANALYSIS_COMPLETE'' (py_strip ''All done. ANALYSIS_COMPLETE'')"
    by (simp add: py_strip_def is_space_def sublist_code)
  have 2: "(4::int) < 5" by simp
  have 3: "model_reply (quiet_events ''All done. ANALYSIS_COMPLETE'') = Returned ''All done. ANALYSIS_COMPLETE''"
    by (simp add: quiet_events_def)
  have 4: "check_sandbox_health (probe (quiet_events ''All done. ANALYSIS_COMPLETE''))"
    by (simp add: quiet_events_def check_sandbox_health_def)
  from sentinel_does_not_stop [OF 1 2, of "[]" 3 "{}" "quiet_events ''All done. ANALYSIS_COMPLETE''" "\<lambda>T. []" fresh_state] 3 4
  show ?thesis by blast
qed

section \<open>Properties of the iteration loop\<close>

lemma run_step_code_no_stop:
  "consecutive_failures s3 = 0 \<Longrightarrow> run_step_code order it ev c s3 \<noteq> Break ExecutionFailures s'"
  by (simp add: run_step_code_def Let_def split: prod.splits)

lemma handle_response_no_stop:
  "handle_response order min_it it ev r s1 \<noteq> Break ExecutionFailures s'"
  by (simp add: handle_response_def Let_def run_step_code_no_stop split: prod.splits)

lemma no_response_no_stop: "no_response s1 \<noteq> Break ExecutionFailures s'"
  by (simp add: no_response_def Let_def)

lemma step_no_stop: "step order min_it it ev s \<noteq> Break ExecutionFailures s'"
  by (simp add: step_def Let_def handle_response_no_stop no_response_no_stop split: option.splits)

lemma loop_no_stop:
  "fst (snd (execute_loop order world max_it min_it it s)) \<noteq> ExecutionFailures"
proof (induction order world max_it min_it it s rule: execute_loop.induct)
  case (1 order world max_it min_it it s)
  show ?case
  proof (cases "it < max_it")
    case False
    then show ?thesis by (simp add: execute_loop.simps)
  next
    case True
    show ?thesis
    proof (cases "step order min_it (it + 1) (world (it + 1)) s")
      case (Continue s')
      with True 1 show ?thesis
        by (subst execute_loop.simps) simp
    next
      case (Break cause s')
      with step_no_stop [of order min_it "it + 1" "world (it + 1)" s s'] have "cause \<noteq> ExecutionFailures"
        by auto
      with True Break show ?thesis
        by (subst execute_loop.simps) simp
    qed
  qed
qed

lemma failing_reply:
  "chat_with_ai (model_reply failing_events)
     = Some failing_response"
proof -
  have "py_strip failing_response = failing_response"
    by (simp add: failing_response_def py_strip_def is_space_def)
  moreover have "\<not> sublist ''ANALYSIS_COMPLETE'' failing_response"
    by (simp add: failing_response_def sublist_code)
  ultimately show ?thesis
    by (simp add: failing_events_def chat_with_ai_def)
qed

lemma failing_parse:
  "parse_ai_response failing_response
     = (''Divide'', ''print(1/0)'')"
  by (simp add: failing_response_def parse_ai_response_def sublist_code py_strip_def is_space_def py_split_on_def)

lemma failing_no_signal:
  "find (\<lambda>signal. sublist signal (py_lower failing_response)) completion_signals = None"
  by (simp add: failing_response_def eval_str)


lemma failing_unhandled:
  "handle_execution_error (AnyValue True ''ZeroDivisionError: division by zero'') = False"
  by (simp add: handle_execution_error_def eval_str)

lemma failing_execute:
  "execute_code (clock failing_events) c (run_code failing_events) (save_results failing_events) hist
     = ((False, AnyValue True ''ZeroDivisionError: division by zero''), hist)"
  by (simp add: failing_events_def execute_code_def)

lemma failing_run_step_code:
  "consecutive_failures s3 = 0 \<Longrightarrow>
   \<exists>s'. run_step_code order it failing_events c s3 = Continue s'
        \<and> session_history s' = session_history s3 \<and> consecutive_failures s' = 1"
  by (simp add: run_step_code_def failing_execute failing_unhandled Let_def)

lemma failing_handle_response:
  assumes "it < 5"
  shows "\<exists>s'. handle_response order min_it it failing_events
            failing_response s1
          = Continue s'
        \<and> session_history s' = session_history s1 \<and> consecutive_failures s' = 1"
proof -
  have "should_stop (check_analysis_completion (session_history s1)
          failing_response
          it min_it (analysis_topics_covered s1)) = False"
    using assms by (simp add: no_signal_found [OF failing_no_signal])
  moreover have "\<exists>s'. run_step_code order it failing_events ''print(1/0)''
            (s1\<lparr>consecutive_failures := 0,
                analysis_topics_covered :=
                  track_analysis_topics ''Divide'' (analysis_topics_covered s1)\<rparr>) = Continue s'
        \<and> session_history s' = session_history s1 \<and> consecutive_failures s' = 1"
    using failing_run_step_code
            [of "s1\<lparr>consecutive_failures := 0,
                analysis_topics_covered :=
                  track_analysis_topics ''Divide'' (analysis_topics_covered s1)\<rparr>"
                order it "''print(1/0)''"]
    by simp
  ultimately show ?thesis
    unfolding handle_response_def Let_def failing_parse
    by simp
qed

lemma failing_response_nonempty: "failing_response \<noteq> []"
  by (simp add: failing_response_def)

lemma failing_step:
  assumes "it < 5"
  shows "\<exists>s'. step order min_it it failing_events s = Continue s'
        \<and> session_history s' = session_history s \<and> consecutive_failures s' = 1"
proof -
  have h: "check_sandbox_health (probe failing_events)"
    by (simp add: failing_events_def check_sandbox_health_def)
  show ?thesis
    using failing_handle_response [OF assms, of order min_it s]
    by (simp add: step_def h failing_reply failing_response_nonempty)
qed

text \<open>
  C1 fails on the code. The counter of failures is reset whenever the model call
  succeeds, so it is 1 at most after a failed execution and the loop never leaves
  through the \<open>break\<close> for repeated execution failures. In the run with
  \<open>max_iterations = 3\<close> where every model call succeeds and every execution
  fails unrecoverably, the third step is started and the loop ends at the ceiling.
\<close>

theorem execution_failures_do_not_stop:
  "fst (snd (execute_loop order world max_it min_it it s)) \<noteq> ExecutionFailures
   \<and> fst (fst (execute_with_automation order (\<lambda>i. failing_events) [] [] ''analyze'' 3 3)) = 3
   \<and> fst (snd (fst (execute_with_automation order (\<lambda>i. failing_events) [] [] ''analyze'' 3 3)))
       = CeilingReached
   \<and> session_history (snd (snd (fst
         (execute_with_automation order (\<lambda>i. failing_events) [] [] ''analyze'' 3 3)))) = []"
proof -
  let ?w = "\<lambda>i::int. failing_events"
  let ?s0 = "\<lparr>current_prompt = ''analyze'', consecutive_failures = 0,
               analysis_topics_covered = {}, sandbox_reset_count = 0,
               session_history = [], analysis_context = []\<rparr>"
  obtain s1 where s1: "step order 3 1 failing_events ?s0 = Continue s1" "session_history s1 = []"
    using failing_step [of 1 order 3 ?s0] by auto
  obtain s2 where s2: "step order 3 2 failing_events s1 = Continue s2" "session_history s2 = []"
    using failing_step [of 2 order 3 s1] s1(2) by auto
  obtain s3 where s3: "step order 3 3 failing_events s2 = Continue s3" "session_history s3 = []"
    using failing_step [of 3 order 3 s2] s2(2) by auto
  have l3: "execute_loop order ?w 3 3 3 s3 = (3, CeilingReached, s3)"
    by (subst execute_loop.simps) simp
  have l2: "execute_loop order ?w 3 3 2 s2 = (3, CeilingReached, s3)"
    by (subst execute_loop.simps) (simp add: s3 l3)
  have l1: "execute_loop order ?w 3 3 1 s1 = (3, CeilingReached, s3)"
    by (subst execute_loop.simps) (simp add: s2 l2)
  have l0: "execute_loop order ?w 3 3 0 ?s0 = (3, CeilingReached, s3)"
    by (subst execute_loop.simps) (simp add: s1 l1)
  show ?thesis
    by (simp add: loop_no_stop execute_with_automation_def l0 s3(2))
qed


section \<open>Properties of the PromptSynthesizer\<close>

lemma sublist_concat_nth: "i < length xss \<Longrightarrow> xss ! i = x \<Longrightarrow> sublist x (concat xss)"
proof -
  assume a: "i < length xss" "xss ! i = x"
  then have "xss = take i xss @ x # drop (Suc i) xss"
    by (metis id_take_nth_drop)
  then have "concat xss = concat (take i xss) @ x @ concat (drop (Suc i) xss)"
    by (metis concat.simps(2) concat_append)
  then show ?thesis
    by (metis sublist_appendI)
qed

lemma sublist_join: "t \<in> set xs \<Longrightarrow> sublist t (py_join sep xs)"
proof (induction sep xs rule: py_join.induct)
  case (1 sep)
  then show ?case by simp
next
  case (2 sep x)
  then show ?case by simp
next
  case (3 sep x y ys)
  show ?case
  proof (cases "t = x")
    case True
    then show ?thesis by simp
  next
    case False
    with 3 have "sublist t (py_join sep (y # ys))" by simp
    then have "sublist t ((x @ sep) @ py_join sep (y # ys))"
      by (meson sublist_order.order_trans suffix_imp_sublist suffixI)
    then show ?thesis by simp
  qed
qed

lemma prompt_step:
  "sublist (''Step '' @ str_int (iteration + 1) @ [NL])
     (generate_intelligent_prompt order ctx iteration lg topics)"
proof -
  have "\<exists>post. generate_intelligent_prompt order ctx iteration lg topics
        = ([NL] @ ''INTELLIGENT ANALYSIS CONTINUATION - '') @ (''Step '' @ str_int (iteration + 1) @ [NL]) @ post"
    by (simp add: generate_intelligent_prompt_def Let_def)
  then show ?thesis
    by (metis sublist_appendI)
qed

lemma prompt_output:
  "sublist (if truthy lg then slice_to 400 (str_of lg) else ''No output'')
     (generate_intelligent_prompt order ctx iteration lg topics)"
  unfolding generate_intelligent_prompt_def Let_def
  by (rule sublist_concat_nth [where i = 7]) simp_all

lemma prompt_context:
  "sublist (if ctx \<noteq> [] then slice_last 800 ctx else ''Starting analysis'')
     (generate_intelligent_prompt order ctx iteration lg topics)"
  unfolding generate_intelligent_prompt_def Let_def
  by (rule sublist_concat_nth [where i = 12]) simp_all

lemma prompt_covered:
  "sublist (if topics \<noteq> {} then py_join '', '' (order topics) else ''None yet'')
     (generate_intelligent_prompt order ctx iteration lg topics)"
  unfolding generate_intelligent_prompt_def Let_def
  by (rule sublist_concat_nth [where i = 19]) simp_all

lemma prompt_remaining:
  "sublist (if all_topics - topics \<noteq> {} then py_join '', '' (order (all_topics - topics))
            else ''All major areas covered'')
     (generate_intelligent_prompt order ctx iteration lg topics)"
  unfolding generate_intelligent_prompt_def Let_def
  by (rule sublist_concat_nth [where i = 23]) simp_all


lemma remaining_example:
  "all_topics - {''correlations'', ''visualization''}
   = {''data_exploration'', ''distributions'', ''patterns'', ''statistics'', ''target_analysis''}"
  by (auto simp: all_topics_def)

lemma order_example:
  "vocabulary_order {''correlations'', ''visualization''} = [''correlations'', ''visualization'']"
  "vocabulary_order {''data_exploration'', ''distributions'', ''patterns'', ''statistics'', ''target_analysis''}
   = [''data_exploration'', ''distributions'', ''patterns'', ''statistics'', ''target_analysis'']"
  by (simp_all add: vocabulary_order_def topic_mapping_def)

lemma long_output_head: "slice_to 400 long_output = replicate 400 (CHR ''a'')"
  by (simp add: slice_to_def long_output_def)

lemma long_output_tail: "CHR ''#'' \<in> set (slice_last 400 long_output)"
  by (simp add: slice_last_def long_output_def)

lemma hash_not_in_prompt:
  "CHR ''#'' \<notin> set (generate_intelligent_prompt vocabulary_order [] 1 (AnyValue True long_output) {})"
proof -
  have "vocabulary_order all_topics
     = [''data_exploration'', ''correlations'', ''distributions'', ''visualization'', ''patterns'',
        ''statistics'', ''target_analysis'']"
    by (simp add: vocabulary_order_def topic_mapping_def all_topics_def)
  moreover have "all_topics \<noteq> {}"
    by (simp add: all_topics_def)
  ultimately show ?thesis
    by (simp add: generate_intelligent_prompt_def long_output_head str_int_def string_of_nat.simps)
qed

text \<open>
  C8, as the claim states it, fails: for an output of 401 characters the prompt
  holds its first 400 characters, and not its last 400.
\<close>

theorem prompt_tail_counterexample:
  "\<not> sublist (slice_last 400 long_output)
       (generate_intelligent_prompt vocabulary_order [] 1 (AnyValue True long_output) {})
   \<and> sublist (slice_to 400 long_output)
       (generate_intelligent_prompt vocabulary_order [] 1 (AnyValue True long_output) {})"
proof
  show "\<not> sublist (slice_last 400 long_output)
       (generate_intelligent_prompt vocabulary_order [] 1 (AnyValue True long_output) {})"
    using long_output_tail hash_not_in_prompt set_mono_sublist by blast
  show "sublist (slice_to 400 long_output)
       (generate_intelligent_prompt vocabulary_order [] 1 (AnyValue True long_output) {})"
    using prompt_output [of "AnyValue True long_output" vocabulary_order "[]" 1 "{}"] by simp
qed


text \<open>
  C8, amended. For every iteration number, last output, accumulated context and
  topic set, the prompt contains the upcoming step number, the first 400 characters
  of the last output (or "No output"), the last 800 characters of the context (or
  "Starting analysis"), the list of the covered topics and the list of the topics of
  the all-topics set that are not covered, each joined in the iteration order of the
  set; so every listed topic occurs in the prompt.
\<close>

theorem prompt_contents:
  "sublist (''Step '' @ str_int (iteration + 1) @ [NL])
     (generate_intelligent_prompt order ctx iteration lg topics)
   \<and> sublist (if truthy lg then slice_to 400 (str_of lg) else ''No output'')
       (generate_intelligent_prompt order ctx iteration lg topics)
   \<and> sublist (if ctx \<noteq> [] then slice_last 800 ctx else ''Starting analysis'')
       (generate_intelligent_prompt order ctx iteration lg topics)
   \<and> sublist (if topics \<noteq> {} then py_join '', '' (order topics) else ''None yet'')
       (generate_intelligent_prompt order ctx iteration lg topics)
   \<and> sublist (if all_topics - topics \<noteq> {} then py_join '', '' (order (all_topics - topics))
              else ''All major areas covered'')
       (generate_intelligent_prompt order ctx iteration lg topics)
   \<and> (topics \<noteq> {} \<longrightarrow>
        (\<forall>t \<in> set (order topics).
           sublist t (generate_intelligent_prompt order ctx iteration lg topics)))
   \<and> (all_topics - topics \<noteq> {} \<longrightarrow>
        (\<forall>t \<in> set (order (all_topics - topics)).
           sublist t (generate_intelligent_prompt order ctx iteration lg topics)))"
proof -
  let ?p = "generate_intelligent_prompt order ctx iteration lg topics"
  have a: "sublist t ?p" if "topics \<noteq> {}" "t \<in> set (order topics)" for t
  proof -
    have "sublist t (py_join '', '' (order topics))"
      using that(2) by (rule sublist_join)
    moreover have "sublist (py_join '', '' (order topics)) ?p"
      using prompt_covered [of topics order ctx iteration lg] that(1) by simp
    ultimately show ?thesis
      by (rule sublist_order.order_trans)
  qed
  have b: "sublist t ?p" if "all_topics - topics \<noteq> {}" "t \<in> set (order (all_topics - topics))" for t
  proof -
    have "sublist t (py_join '', '' (order (all_topics - topics)))"
      using that(2) by (rule sublist_join)
    moreover have "sublist (py_join '', '' (order (all_topics - topics))) ?p"
      using prompt_remaining [of topics order ctx iteration lg] that(1) by simp
    ultimately show ?thesis
      by (rule sublist_order.order_trans)
  qed
  show ?thesis
    by (intro conjI impI ballI;
        (rule prompt_step prompt_output prompt_context prompt_covered prompt_remaining
         | (rule a b; assumption)))
qed

theorem prompt_contents_witness:
  "sublist (''Step 3'' @ [NL])
     (generate_intelligent_prompt vocabulary_order ''Step 1: ok'' 2 (AnyValue True ''count 303'')
        {''correlations'', ''visualization''})
   \<and> sublist ''count 303''
     (generate_intelligent_prompt vocabulary_order ''Step 1: ok'' 2 (AnyValue True ''count 303'')
        {''correlations'', ''visualization''})
   \<and> sublist ''Step 1: ok''
     (generate_intelligent_prompt vocabulary_order ''Step 1: ok'' 2 (AnyValue True ''count 303'')
        {''correlations'', ''visualization''})
   \<and> sublist ''correlations, visualization''
     (generate_intelligent_prompt vocabulary_order ''Step 1: ok'' 2 (AnyValue True ''count 303'')
        {''correlations'', ''visualization''})
   \<and> sublist ''data_exploration, distributions, patterns, statistics, target_analysis''
     (generate_intelligent_prompt vocabulary_order ''Step 1: ok'' 2 (AnyValue True ''count 303'')
        {''correlations'', ''visualization''})"
  using prompt_contents [of 2 vocabulary_order "''Step 1: ok''" "AnyValue True ''count 303''"
          "{''correlations'', ''visualization''}"]
  by (simp add: remaining_example order_example str_int_def string_of_nat.simps
        slice_to_def slice_last_def)

section \<open>Properties of the ResponseParser\<close>

lemma split_on_aux_absent: "sep \<notin> set xs \<Longrightarrow> split_on_aux sep cur xs = [cur @ xs]"
  by (induction xs arbitrary: cur) auto

lemma split_on_aux_append:
  "split_on_aux sep cur (xs @ sep # ys) = split_on_aux sep cur xs @ split_on_aux sep [] ys"
  by (induction xs arbitrary: cur) auto

lemma split_on_append:
  "py_split_on sep (xs @ sep # ys) = py_split_on sep xs @ py_split_on sep ys"
  by (simp add: py_split_on_def split_on_aux_append)

lemma split_on_absent: "sep \<notin> set xs \<Longrightarrow> py_split_on sep xs = [xs]"
  by (simp add: py_split_on_def split_on_aux_absent)

lemma concat_split_on_aux:
  "concat (map (\<lambda>l. l @ [sep]) (split_on_aux sep cur xs)) = cur @ xs @ [sep]"
  by (induction xs arbitrary: cur) auto

lemma concat_split_on: "concat (map (\<lambda>l. l @ [sep]) (py_split_on sep xs)) = xs @ [sep]"
  by (simp add: py_split_on_def concat_split_on_aux)

lemma dropWhile_all: "\<forall>c \<in> set s. P c \<Longrightarrow> dropWhile P s = []"
  by (induction s) simp_all

lemma strip_trailing_space: "is_space x \<Longrightarrow> py_strip (s @ [x]) = py_strip s"
proof (cases "\<forall>c \<in> set s. is_space c")
  case True
  assume x: "is_space x"
  from True have a: "dropWhile is_space s = []"
    by (rule dropWhile_all)
  from True x have "\<forall>c \<in> set (s @ [x]). is_space c"
    by simp
  then have b: "dropWhile is_space (s @ [x]) = []"
    by (rule dropWhile_all)
  show ?thesis
    unfolding py_strip_def a b by (rule refl)
next
  case False
  assume x: "is_space x"
  from False have "dropWhile is_space (s @ [x]) = dropWhile is_space s @ [x]"
    by (auto simp: dropWhile_append1)
  with x show ?thesis by (simp add: py_strip_def)
qed

lemma strip_unchanged:
  "s \<noteq> [] \<Longrightarrow> \<not> is_space (hd s) \<Longrightarrow> \<not> is_space (last s) \<Longrightarrow> py_strip s = s"
proof -
  assume a: "s \<noteq> []" "\<not> is_space (hd s)" "\<not> is_space (last s)"
  then have 1: "dropWhile is_space s = s"
    by (simp add: dropWhile_eq_self_iff)
  from a have "dropWhile is_space (rev s) = rev s"
    by (simp add: dropWhile_eq_self_iff hd_rev)
  with 1 show ?thesis by (simp add: py_strip_def)
qed

lemma replace_absent:
  "old \<noteq> [] \<Longrightarrow> \<not> sublist old s \<Longrightarrow> str_replace old new s = s"
proof (induction s)
  case Nil
  then show ?case by simp
next
  case (Cons c cs)
  from Cons.prems have "\<not> prefix old (c # cs)"
    using prefix_imp_sublist by blast
  moreover from Cons.prems have "\<not> sublist old cs"
    by (simp add: sublist_Cons_right)
  ultimately show ?case using Cons by simp
qed

lemma code_lines_fold:
  "list_all plain_code_line ls \<Longrightarrow>
   foldl parse_line (ex, acc, True) ls = (ex, acc @ concat (map (\<lambda>l. l @ [NL]) ls), True)"
  by (induction ls arbitrary: acc) (simp_all add: plain_code_line_def)



lemma last_dropWhile: "dropWhile P xs \<noteq> [] \<Longrightarrow> last (dropWhile P xs) = last xs"
  by (metis last_appendR takeWhile_dropWhile_id)

lemma strip_ends:
  assumes "py_strip s \<noteq> []"
  shows "\<not> is_space (hd (py_strip s))" and "\<not> is_space (last (py_strip s))"
proof -
  let ?u = "dropWhile is_space s"
  let ?v = "dropWhile is_space (rev ?u)"
  from assms have v: "?v \<noteq> []" by (simp add: py_strip_def)
  have u: "?u \<noteq> []"
  proof
    assume "?u = []"
    then have "?v = []" by (simp only: rev.simps dropWhile.simps)
    with v show False by (simp only:)
  qed
  have "hd (py_strip s) = last ?v"
    using v by (simp add: py_strip_def hd_rev)
  also have "\<dots> = last (rev ?u)" using v by (rule last_dropWhile)
  also have "\<dots> = hd ?u" using u by (simp add: last_rev)
  finally show "\<not> is_space (hd (py_strip s))"
    using u hd_dropWhile [of is_space s] by simp
  have "last (py_strip s) = hd ?v"
    using v by (simp add: py_strip_def last_rev)
  then show "\<not> is_space (last (py_strip s))"
    using v hd_dropWhile [of is_space "rev ?u"] by simp
qed

lemma strip_idem: "py_strip (py_strip s) = py_strip s"
proof (cases "py_strip s = []")
  case True
  moreover have "py_strip [] = []" by (simp add: py_strip_def)
  ultimately show ?thesis by simp
next
  case False
  then show ?thesis by (intro strip_unchanged strip_ends)
qed

lemma strip_sublist: "sublist (py_strip s) s"
proof -
  have "suffix (dropWhile is_space (rev (dropWhile is_space s))) (rev (dropWhile is_space s))"
    by (rule suffix_dropWhile)
  then have "prefix (py_strip s) (dropWhile is_space s)"
    unfolding py_strip_def by (metis rev_rev_ident suffix_to_prefix)
  moreover have "suffix (dropWhile is_space s) s"
    by (rule suffix_dropWhile)
  ultimately show ?thesis
    by (meson prefix_imp_sublist suffix_imp_sublist sublist_order.order_trans)
qed

lemma strip_starts:
  assumes "prefix (x # p) line" and "\<not> is_space x"
  shows "\<exists>t. py_strip line = x # t"
proof -
  from assms(1) obtain rest where l: "line = x # rest"
    by (auto simp: prefix_def)
  with assms(2) have d: "dropWhile is_space line = x # rest" by simp
  have "dropWhile is_space (rev rest @ [x]) = dropWhile is_space (rev rest) @ [x]
        \<or> dropWhile is_space (rev rest @ [x]) = [x]"
    using assms(2) by (simp add: dropWhile_append)
  then show ?thesis
  proof
    assume "dropWhile is_space (rev rest @ [x]) = dropWhile is_space (rev rest) @ [x]"
    then have "py_strip line = x # rev (dropWhile is_space (rev rest))"
      unfolding py_strip_def d by simp
    then show ?thesis by blast
  next
    assume "dropWhile is_space (rev rest @ [x]) = [x]"
    then have "py_strip line = [x]"
      unfolding py_strip_def d by simp
    then show ?thesis by blast
  qed
qed

lemma fence_not_marker:
  assumes "prefix ''```'' (py_strip line)"
  shows "\<not> prefix ''EXPLANATION:'' line" and "\<not> prefix ''CODE:'' line"
proof -
  show "\<not> prefix ''EXPLANATION:'' line"
  proof
    assume "prefix ''EXPLANATION:'' line"
    then obtain t where "py_strip line = CHR ''E'' # t"
      using strip_starts [of "CHR ''E''" "''XPLANATION:''" line] by (auto simp: is_space_def)
    with assms show False by simp
  qed
  show "\<not> prefix ''CODE:'' line"
  proof
    assume "prefix ''CODE:'' line"
    then obtain t where "py_strip line = CHR ''C'' # t"
      using strip_starts [of "CHR ''C''" "''ODE:''" line] by (auto simp: is_space_def)
    with assms show False by simp
  qed
qed

lemma line_sublist: "l \<in> set (split_on_aux sep cur s) \<Longrightarrow> sublist l (cur @ s)"
proof (induction s arbitrary: cur)
  case Nil
  then show ?case by simp
next
  case (Cons c s)
  show ?case
  proof (cases "c = sep")
    case True
    with Cons.prems have "l = cur \<or> l \<in> set (split_on_aux sep [] s)" by simp
    then show ?thesis
    proof
      assume "l = cur"
      then show ?thesis by simp
    next
      assume "l \<in> set (split_on_aux sep [] s)"
      then have "sublist l ([] @ s)" by (rule Cons.IH)
      then have "sublist l ((cur @ [c]) @ s)"
        by (metis append_Nil sublist_append)
      then show ?thesis by simp
    qed
  next
    case False
    with Cons.prems have "l \<in> set (split_on_aux sep (cur @ [c]) s)" by simp
    then have "sublist l ((cur @ [c]) @ s)" by (rule Cons.IH)
    then show ?thesis by simp
  qed
qed

lemma outside_fold:
  "list_all outside_line ls \<Longrightarrow>
   foldl parse_line (ex, acc, False) ls = (ex, acc, False)"
  by (induction ls) (simp_all add: outside_line_def)

lemma marker_line:
  assumes "\<not> sublist ''EXPLANATION:'' e"
  shows "parse_line ([], [], False) (''EXPLANATION:'' @ e) = (py_strip e, [], False)"
proof -
  have "str_replace ''EXPLANATION:'' [] (''EXPLANATION:'' @ e) = str_replace ''EXPLANATION:'' [] e"
    by simp
  also have "\<dots> = e"
    using assms by (intro replace_absent) simp_all
  finally show ?thesis by simp
qed


lemma strip_empty: "py_strip [] = []"
  by (simp add: py_strip_def)

lemma opening_line:
  assumes "prefix ''```python'' (py_strip line)"
  shows "parse_line (ex, acc, b) line = (ex, acc, True)"
proof -
  from assms have "prefix ''```'' (py_strip line)"
    by (auto simp: prefix_def)
  then have "\<not> prefix ''EXPLANATION:'' line" "\<not> prefix ''CODE:'' line"
    by (rule fence_not_marker)+
  with assms show ?thesis by simp
qed

lemma closing_fence_line:
  assumes "py_strip line = ''```''"
  shows "parse_line (ex, acc, True) line = (ex, acc, False)"
proof -
  from assms have "prefix ''```'' (py_strip line)" by simp
  then have "\<not> prefix ''EXPLANATION:'' line" "\<not> prefix ''CODE:'' line"
    by (rule fence_not_marker)+
  with assms show ?thesis by simp
qed

lemma concat_lines:
  "concat (map (\<lambda>l. l @ sep) ls) = (if ls = [] then [] else py_join sep ls @ sep)"
  by (induction sep ls rule: py_join.induct) simp_all

lemma strip_code_lines:
  "py_strip (concat (map (\<lambda>l. l @ [NL]) ls)) = py_strip (py_join [NL] ls)"
proof (cases "ls = []")
  case True
  then show ?thesis by simp
next
  case False
  have "py_strip (py_join [NL] ls @ [NL]) = py_strip (py_join [NL] ls)"
    by (rule strip_trailing_space) (simp add: is_space_def)
  with False show ?thesis by (simp add: concat_lines)
qed

lemma explanation_stripped:
  "py_strip ex = ex \<Longrightarrow>
   py_strip (fst (foldl parse_line (ex, acc, b) ls)) = fst (foldl parse_line (ex, acc, b) ls)"
  by (induction ls arbitrary: ex acc b) (simp_all add: strip_idem)

lemma parse_stripped:
  "py_strip (fst (parse_ai_response r)) = fst (parse_ai_response r)
   \<and> py_strip (snd (parse_ai_response r)) = snd (parse_ai_response r)"
proof (cases "sublist ''EXPLANATION:'' r")
  case True
  obtain ex acc b where f: "foldl parse_line ([], [], False) (py_split_on NL (py_strip r)) = (ex, acc, b)"
    by (metis prod_cases3)
  have "py_strip ex = ex"
    using explanation_stripped [of "[]" "[]" False "py_split_on NL (py_strip r)"]
    by (simp add: f strip_empty)
  with True f show ?thesis
    by (simp add: parse_ai_response_def strip_idem)
next
  case False
  then show ?thesis
    by (simp add: parse_ai_response_def strip_idem strip_empty Let_def split: option.splits)
qed

lemmas eval_parse =
  parse_ai_response_def labeled_response_def sublist_code py_strip_def is_space_def py_split_on_def

lemma two_line_parse:
  "parse_ai_response (labeled_response two_line_explanation ''print(1)'')
   = (''Load the data.'', ''print(1)'')"
  by (simp add: two_line_explanation_def eval_parse)

lemma two_line_strip:
  "py_strip two_line_explanation = ''Load the data.'' @ [NL] @ ''Then describe it.''"
  by (simp add: two_line_explanation_def py_strip_def is_space_def)

lemma marker_inside_parse:
  "parse_ai_response (labeled_response '' see EXPLANATION: above'' ''print(1)'')
   = (''see  above'', ''print(1)'')"
  by (simp add: eval_parse)

lemma marker_inside_strip: "py_strip '' see EXPLANATION: above'' = ''see EXPLANATION: above''"
  by (simp add: py_strip_def is_space_def)

lemma code_header_parse:
  "parse_ai_response (labeled_response '' Count.'' annotated_code) = (''Count.'', ''print(CODE)'')"
  by (simp add: annotated_code_def eval_parse)

lemma code_header_strip: "py_strip annotated_code = ''CODE: int = 1'' @ [NL] @ ''print(CODE)''"
  by (simp add: annotated_code_def py_strip_def is_space_def)

lemmas eval_lines =
  py_split_on_def py_strip_def is_space_def outside_line_def plain_code_line_def sublist_code

text \<open>
  C5, as the claim states it, fails on three responses in the labeled format: an
  explanation of two lines loses its second line, an explanation that quotes the
  marker loses the quotation, and a code line that starts with \<open>CODE:\<close> is
  dropped.
\<close>

theorem parse_labeled_counterexample:
  "parse_ai_response (labeled_response two_line_explanation ''print(1)'')
     \<noteq> (py_strip two_line_explanation, py_strip ''print(1)'')
   \<and> parse_ai_response (labeled_response '' see EXPLANATION: above'' ''print(1)'')
     \<noteq> (py_strip '' see EXPLANATION: above'', py_strip ''print(1)'')
   \<and> parse_ai_response (labeled_response '' Count.'' annotated_code)
     \<noteq> (py_strip '' Count.'', py_strip annotated_code)"
  by (simp add: two_line_parse two_line_strip marker_inside_parse marker_inside_strip
        code_header_parse code_header_strip)


text \<open>
  C5, amended. Take a response whose stripped text consists of lines outside the
  block, the line of the explanation marker followed by the explanation, more lines
  outside the block, a line that opens a \<open>python\<close> fence, the lines of the code,
  a line that closes the fence, and more lines outside the block. If the explanation
  does not contain the marker and the lines of the code are plain, the parser
  returns the explanation and the code, each stripped of surrounding whitespace. And
  the parser raises on no string: on every string it returns a pair, both parts
  stripped.
\<close>

theorem parse_labeled_response:
  assumes "py_split_on NL (py_strip response)
           = pre @ [''EXPLANATION:'' @ explanation] @ mid @ [fence_open] @ code_lines @ [fence_close] @ post"
    and "list_all outside_line pre" and "list_all outside_line mid"
    and "list_all outside_line post"
    and "prefix ''```python'' (py_strip fence_open)" and "py_strip fence_close = ''```''"
    and "\<not> sublist ''EXPLANATION:'' explanation"
    and "list_all plain_code_line code_lines"
  shows "parse_ai_response response = (py_strip explanation, py_strip (py_join [NL] code_lines))
       \<and> py_strip (fst (parse_ai_response other)) = fst (parse_ai_response other)
       \<and> py_strip (snd (parse_ai_response other)) = snd (parse_ai_response other)"
proof -
  define first_line where "first_line = ''EXPLANATION:'' @ explanation"
  have lines: "py_split_on NL (py_strip response)
        = pre @ [first_line] @ mid @ [fence_open] @ code_lines @ [fence_close] @ post"
    unfolding first_line_def by (rule assms(1))
  have "first_line \<in> set (split_on_aux NL [] (py_strip response))"
    using lines by (simp add: py_split_on_def)
  then have "sublist first_line ([] @ py_strip response)"
    by (rule line_sublist)
  then have a: "sublist first_line (py_strip response)"
    by (simp only: append_Nil)
  have b: "sublist ''EXPLANATION:'' first_line"
    unfolding first_line_def by (rule sublist_append_rightI)
  from b a have "sublist ''EXPLANATION:'' (py_strip response)"
    by (rule sublist_order.order_trans)
  then have m: "sublist ''EXPLANATION:'' response"
    using strip_sublist [of response] by (rule sublist_order.order_trans)
  have f0: "foldl parse_line ([], [], False) pre = ([], [], False)"
    using assms(2) by (rule outside_fold)
  have f1: "foldl parse_line ([], [], False) [first_line] = (py_strip explanation, [], False)"
    unfolding first_line_def using marker_line [OF assms(7)] by simp
  have f2: "foldl parse_line (py_strip explanation, [], False) mid
        = (py_strip explanation, [], False)"
    using assms(3) by (rule outside_fold)
  have f3: "foldl parse_line (py_strip explanation, [], False) [fence_open]
        = (py_strip explanation, [], True)"
    using opening_line [OF assms(5)] by simp
  define body where "body = concat (map (\<lambda>l. l @ [NL]) code_lines)"
  have f4: "foldl parse_line (py_strip explanation, [], True) code_lines
        = (py_strip explanation, body, True)"
    unfolding body_def using code_lines_fold [OF assms(8), of "py_strip explanation" "[]"] by simp
  have f5: "foldl parse_line (py_strip explanation, body, True) [fence_close]
        = (py_strip explanation, body, False)"
    using closing_fence_line [OF assms(6)] by simp
  have f6: "foldl parse_line (py_strip explanation, body, False) post
        = (py_strip explanation, body, False)"
    using assms(4) by (rule outside_fold)
  have "foldl parse_line ([], [], False) (py_split_on NL (py_strip response))
        = (py_strip explanation, body, False)"
    by (simp only: lines foldl_append f0 f1 f2 f3 f4 f5 f6)
  moreover have "py_strip body = py_strip (py_join [NL] code_lines)"
    unfolding body_def by (rule strip_code_lines)
  ultimately have "parse_ai_response response
        = (py_strip explanation, py_strip (py_join [NL] code_lines))"
    by (simp add: parse_ai_response_def m)
  then show ?thesis
    using parse_stripped [of other] by (rule conjI)
qed


theorem parse_labeled_response_witness:
  "parse_ai_response (labeled_response '' Load the data.'' sample_code)
     = (''Load the data.'', sample_code)
   \<and> parse_ai_response failing_response = (''Divide'', ''print(1/0)'')
   \<and> parse_ai_response chatty_response = (''Count rows'', ''print(len(df))'')"
proof (intro conjI)
  show "parse_ai_response (labeled_response '' Load the data.'' sample_code)
     = (''Load the data.'', sample_code)"
    using parse_labeled_response
      [where response = "labeled_response '' Load the data.'' sample_code"
         and pre = "[]" and explanation = "'' Load the data.''" and mid = "[[], ''CODE:'']"
         and fence_open = "''```python''"
         and code_lines = "[''import pandas as pd'', ''df = pd.read_csv('data.csv')'']"
         and fence_close = "''```''" and post = "[]" and other = "[]"]
    by (simp add: labeled_response_def sample_code_def eval_lines)
  show "parse_ai_response failing_response = (''Divide'', ''print(1/0)'')"
    using parse_labeled_response
      [where response = failing_response
         and pre = "[]" and explanation = "'' Divide''" and mid = "[]"
         and fence_open = "''```python''" and code_lines = "[''print(1/0)'']"
         and fence_close = "''```''" and post = "[]" and other = "[]"]
    by (simp add: failing_response_def eval_lines)
  show "parse_ai_response chatty_response = (''Count rows'', ''print(len(df))'')"
    using parse_labeled_response
      [where response = chatty_response
         and pre = "[''Sure.'']" and explanation = "'' Count rows''" and mid = "[[]]"
         and fence_open = "''```python  ''" and code_lines = "[''print(len(df))'']"
         and fence_close = "'' ```''" and post = "[''Done.'']" and other = "[]"]
    by (simp add: chatty_response_def eval_lines)
qed


end
